theory Spec2Isabelle
  imports Main "HOL-Library.AList" "HOL-Library.Sublist"
begin

section \<open>Python values, dictionaries and exceptions\<close>

text \<open>
  The values \<^verbatim>\<open>main.py\<close> handles are JSON-shaped Python objects: \<^verbatim>\<open>None\<close>, booleans,
  numbers, strings, lists and dictionaries with string keys. A dictionary is an association
  list in insertion order with distinct keys; \<open>map_of\<close> reads it and \<open>AList.update\<close> is
  \<^verbatim>\<open>d[k] = v\<close> (replace in place, or append a new key at the end). No operation of the
  program computes with a number it did not build itself, so an integer is an \<open>int\<close> and a
  float is kept as its decimal literal.
\<close>

datatype pyval =
    PNone
  | PBool bool
  | PInt int
  | PFloat string
  | PStr string
  | PList "pyval list"
  | PDict "(string \<times> pyval) list"

type_synonym pydict = "(string \<times> pyval) list"

text \<open>An exception: its class name and the text \<^verbatim>\<open>str(e)\<close> gives.\<close>

datatype pyexn = PyExn string string

fun exn_str :: "pyexn \<Rightarrow> string" where
  "exn_str (PyExn cls msg) = msg"

fun py_type_name :: "pyval \<Rightarrow> string" where
  "py_type_name PNone = ''NoneType''"
| "py_type_name (PBool b) = ''bool''"
| "py_type_name (PInt i) = ''int''"
| "py_type_name (PFloat f) = ''float''"
| "py_type_name (PStr s) = ''str''"
| "py_type_name (PList xs) = ''list''"
| "py_type_name (PDict d) = ''dict''"

definition AttributeError :: "pyval \<Rightarrow> string \<Rightarrow> pyexn" where
  "AttributeError v attr =
     PyExn ''AttributeError''
       ([CHR 0x27] @ py_type_name v @ [CHR 0x27] @ '' object has no attribute ''
          @ [CHR 0x27] @ attr @ [CHR 0x27])"

definition KeyError :: "string \<Rightarrow> pyexn" where
  "KeyError k = PyExn ''KeyError'' ([CHR 0x27] @ k @ [CHR 0x27])"

definition TypeError_not_iterable :: "pyval \<Rightarrow> pyexn" where
  "TypeError_not_iterable v =
     PyExn ''TypeError'' ([CHR 0x27] @ py_type_name v @ [CHR 0x27] @ '' object is not iterable'')"

definition TypeError_in :: "pyval \<Rightarrow> pyexn" where
  "TypeError_in v =
     PyExn ''TypeError''
       (''argument of type '' @ [CHR 0x27] @ py_type_name v @ [CHR 0x27] @ '' is not iterable'')"

text \<open>\<^verbatim>\<open>d.get(k, default)\<close> and \<^verbatim>\<open>d[k]\<close> on a dictionary.\<close>

definition dict_get :: "pydict \<Rightarrow> string \<Rightarrow> pyval \<Rightarrow> pyval" where
  "dict_get d k dflt = (case map_of d k of Some v \<Rightarrow> v | None \<Rightarrow> dflt)"

definition dict_getitem :: "pydict \<Rightarrow> string \<Rightarrow> pyexn + pyval" where
  "dict_getitem d k = (case map_of d k of Some v \<Rightarrow> Inr v | None \<Rightarrow> Inl (KeyError k))"

text \<open>\<^verbatim>\<open>v.get(k, default)\<close> on any value: only a dictionary has the method.\<close>

fun py_get :: "pyval \<Rightarrow> string \<Rightarrow> pyval \<Rightarrow> pyexn + pyval" where
  "py_get (PDict d) k dflt = Inr (dict_get d k dflt)"
| "py_get v k dflt = Inl (AttributeError v ''get'')"

text \<open>
  \<^verbatim>\<open>for item in v\<close>: a list gives its elements, a dictionary its keys, a string its
  characters; nothing else is iterable.
\<close>

fun py_iter :: "pyval \<Rightarrow> pyexn + pyval list" where
  "py_iter (PList xs) = Inr xs"
| "py_iter (PDict d) = Inr (map (\<lambda>kv. PStr (fst kv)) d)"
| "py_iter (PStr s) = Inr (map (\<lambda>c. PStr [c]) s)"
| "py_iter v = Inl (TypeError_not_iterable v)"

text \<open>\<^verbatim>\<open>s in v\<close> for a string \<open>s\<close>: substring of a string, element of a list, key of a dictionary.\<close>

fun py_in :: "string \<Rightarrow> pyval \<Rightarrow> pyexn + bool" where
  "py_in s (PStr u) = Inr (sublist s u)"
| "py_in s (PList xs) = Inr (PStr s \<in> set xs)"
| "py_in s (PDict d) = Inr (map_of d s \<noteq> None)"
| "py_in s v = Inl (TypeError_in v)"

text \<open>Truthiness of an environment variable read with \<^verbatim>\<open>os.environ.get\<close>: unset and empty are false.\<close>

fun env_truthy :: "string option \<Rightarrow> bool" where
  "env_truthy None = False"
| "env_truthy (Some s) = (s \<noteq> [])"

fun env_val :: "string option \<Rightarrow> pyval" where
  "env_val None = PNone"
| "env_val (Some s) = PStr s"

section \<open>Configuration, upstream servers and the trace of calls\<close>

record config =
  GROQ_API_KEY :: "string option"
  GOOGLE_API_KEY :: "string option"
  GOOGLE_CX_ID :: "string option"

text \<open>
  What a call of \<^verbatim>\<open>requests.get\<close> or \<^verbatim>\<open>requests.post\<close> does: it raises, or it returns a
  response with a status code and a body. The body is given as what the code reads from
  it, which may raise in turn: \<^verbatim>\<open>resp.json()\<close> for the two JSON services, and for the
  scraped page the rows \<^verbatim>\<open>BeautifulSoup(resp.text, "html.parser").find_all('tr')\<close> yields.
\<close>

datatype 'a http_result = Raises pyexn | Response int "pyexn + 'a"

text \<open>
  A tag of the parsed page: its stripped text and its attributes. For each row the code
  looks at two things only: \<^verbatim>\<open>row.find('a', class_='result-link')\<close> and
  \<^verbatim>\<open>row.find('td', class_='result-snippet')\<close>, each a tag or \<^verbatim>\<open>None\<close>. A tag is always
  truthy.
\<close>

datatype tag = Tag (get_text: string) (attrs: "(string \<times> string) list")

record row =
  link_tag :: "tag option"
  snippet_tag :: "tag option"

text \<open>
  The upstream servers, one function per call site, from the request's payload to the
  outcome. The two searches of one request run in two threads that share nothing, so the
  outcome of each depends on its own request only.
\<close>

record world =
  requests_get_google :: "pydict \<Rightarrow> pyval http_result"
  requests_post_ddg :: "pydict \<Rightarrow> row list http_result"
  requests_post_groq :: "pydict \<Rightarrow> pyval http_result"

text \<open>
  The trace of a handler: the tasks it submits to the thread pool (function name, query,
  page) and the HTTP requests sent upstream (method, URL, and the \<^verbatim>\<open>params\<close>, \<^verbatim>\<open>data\<close> or
  \<^verbatim>\<open>json\<close> argument).
\<close>

datatype event =
    Submitted string string int
  | Requested string string pydict

section \<open>The structured client: \<^verbatim>\<open>google_search_api\<close>\<close>

definition google_url :: string where
  "google_url = ''https://www.googleapis.com/customsearch/v1''"

definition google_params :: "config \<Rightarrow> string \<Rightarrow> int \<Rightarrow> pydict" where
  "google_params cfg query page =
     (let start_index = ((page - 1) * 10) + 1
      in [(''key'', env_val (GOOGLE_API_KEY cfg)),
          (''cx'', env_val (GOOGLE_CX_ID cfg)),
          (''q'', PStr query),
          (''start'', PInt start_index),
          (''num'', PInt 10)])"

text \<open>The dictionary appended for one item, a dictionary itself: each field is \<^verbatim>\<open>item.get(k)\<close>.\<close>

definition google_result :: "pydict \<Rightarrow> pydict" where
  "google_result item =
     [(''title'', dict_get item ''title'' PNone),
      (''url'', dict_get item ''link'' PNone),
      (''snippet'', dict_get item ''snippet'' PNone),
      (''source'', PStr ''Google'')]"

text \<open>The loop over \<^verbatim>\<open>data.get("items", [])\<close>: \<^verbatim>\<open>item.get\<close> raises on an item that is no dictionary.\<close>

fun google_items :: "pyval list \<Rightarrow> pydict list \<Rightarrow> pyexn + pydict list" where
  "google_items [] results = Inr results"
| "google_items (item # items) results =
     (case item of
        PDict d \<Rightarrow> google_items items (results @ [google_result d])
      | _ \<Rightarrow> Inl (AttributeError item ''get''))"

text \<open>The body of the \<^verbatim>\<open>try\<close> for a response of status 200.\<close>

definition google_parse :: "pyexn + pyval \<Rightarrow> pyexn + pydict list" where
  "google_parse json =
     (case json of
        Inl e \<Rightarrow> Inl e
      | Inr data \<Rightarrow>
          (case py_get data ''items'' (PList []) of
             Inl e \<Rightarrow> Inl e
           | Inr its \<Rightarrow>
               (case py_iter its of
                  Inl e \<Rightarrow> Inl e
                | Inr items \<Rightarrow> google_items items [])))"

definition google_search_api ::
  "config \<Rightarrow> world \<Rightarrow> string \<Rightarrow> int \<Rightarrow> event list \<times> pydict list option" where
  "google_search_api cfg w query page =
     (if \<not> env_truthy (GOOGLE_API_KEY cfg) \<or> \<not> env_truthy (GOOGLE_CX_ID cfg) then ([], None)
      else
        let params = google_params cfg query page
        in ([Requested ''GET'' google_url params],
            (case requests_get_google w params of
               Raises e \<Rightarrow> None
             | Response status_code json \<Rightarrow>
                 if status_code = 200 then
                   (case google_parse json of Inl e \<Rightarrow> None | Inr results \<Rightarrow> Some results)
                 else if status_code = 429 then None
                 else None)))"

section \<open>The scraping client: \<^verbatim>\<open>ddg_lite_search\<close>\<close>

definition ddg_url :: string where
  "ddg_url = ''https://lite.duckduckgo.com/lite/''"

definition ddg_payload :: "string \<Rightarrow> int \<Rightarrow> pydict" where
  "ddg_payload query page =
     (let skip = (page - 1) * 20
      in [(''q'', PStr query), (''s'', PInt skip)])"

text \<open>
  The dictionary a link row stores in \<^verbatim>\<open>current_result\<close>; \<^verbatim>\<open>link_tag['href']\<close> raises
  \<^verbatim>\<open>KeyError\<close> on a tag with no such attribute.
\<close>

definition link_result :: "tag \<Rightarrow> pyexn + pydict" where
  "link_result t =
     (case map_of (attrs t) ''href'' of
        None \<Rightarrow> Inl (KeyError ''href'')
      | Some h \<Rightarrow>
          Inr [(''title'', PStr (get_text t)), (''url'', PStr h), (''source'', PStr ''DuckDuckGo'')])"

text \<open>
  The loop over the rows, with its two variables \<^verbatim>\<open>results\<close> and \<^verbatim>\<open>current_result\<close>; the
  empty dictionary is the falsy value of \<^verbatim>\<open>current_result\<close>.
\<close>

fun ddg_rows :: "row list \<Rightarrow> pydict list \<Rightarrow> pydict \<Rightarrow> pyexn + pydict list" where
  "ddg_rows [] results current_result = Inr results"
| "ddg_rows (r # rows) results current_result =
     (case link_tag r of
        Some lt \<Rightarrow>
          (case link_result lt of
             Inl e \<Rightarrow> Inl e
           | Inr cur \<Rightarrow> ddg_rows rows results cur)
      | None \<Rightarrow>
          (case snippet_tag r of
             Some st \<Rightarrow>
               if current_result \<noteq> [] then
                 ddg_rows rows
                   (results @ [AList.update ''snippet'' (PStr (get_text st)) current_result]) []
               else ddg_rows rows results current_result
           | None \<Rightarrow> ddg_rows rows results current_result))"

text \<open>\<^verbatim>\<open>[r for r in results if not "duckduckgo.com" in r['url']]\<close>\<close>

fun clean_results :: "pydict list \<Rightarrow> pyexn + pydict list" where
  "clean_results [] = Inr []"
| "clean_results (r # rs) =
     (case dict_getitem r ''url'' of
        Inl e \<Rightarrow> Inl e
      | Inr u \<Rightarrow>
          (case py_in ''duckduckgo.com'' u of
             Inl e \<Rightarrow> Inl e
           | Inr internal \<Rightarrow>
               (case clean_results rs of
                  Inl e \<Rightarrow> Inl e
                | Inr cs \<Rightarrow> Inr (if \<not> internal then r # cs else cs))))"

text \<open>The body of the \<^verbatim>\<open>try\<close> for a response of status 200.\<close>

definition ddg_parse :: "pyexn + row list \<Rightarrow> pyexn + pydict list" where
  "ddg_parse soup =
     (case soup of
        Inl e \<Rightarrow> Inl e
      | Inr rows \<Rightarrow>
          (case ddg_rows rows [] [] of
             Inl e \<Rightarrow> Inl e
           | Inr results \<Rightarrow>
               (case clean_results results of
                  Inl e \<Rightarrow> Inl e
                | Inr cleaned \<Rightarrow> Inr (take 15 cleaned))))"

definition ddg_lite_search :: "world \<Rightarrow> string \<Rightarrow> int \<Rightarrow> event list \<times> pydict list" where
  "ddg_lite_search w query page =
     (let payload = ddg_payload query page
      in ([Requested ''POST'' ddg_url payload],
          (case requests_post_ddg w payload of
             Raises e \<Rightarrow> []
           | Response status_code soup \<Rightarrow>
               if status_code = 200 then
                 (case ddg_parse soup of Inl e \<Rightarrow> [] | Inr results \<Rightarrow> results)
               else [])))"

section \<open>The HTTP handlers\<close>

text \<open>What a handler returns to Flask: \<^verbatim>\<open>jsonify(v)\<close> is a JSON response of status 200.\<close>

datatype response = Http_json (status: int) (body: pyval)

definition jsonify :: "pyval \<Rightarrow> response" where
  "jsonify v = Http_json 200 v"

subsection \<open>\<^verbatim>\<open>int(s)\<close> on a query parameter\<close>

text \<open>
  The builtin on a string of ASCII characters: optional surrounding whitespace (the six
  characters tab, line feed, vertical tab, form feed, carriage return and space), an
  optional sign, then decimal digits, where single underscores may stand between digits.
  Anything else raises \<^verbatim>\<open>ValueError\<close>. (A string with a character outside ASCII is
  rejected here; the interpreter's configurable limit on the number of digits in a
  conversion between \<^verbatim>\<open>int\<close> and \<^verbatim>\<open>str\<close> is left out.)
\<close>

definition py_isspace :: "char \<Rightarrow> bool" where
  "py_isspace c = (let n = (of_char c :: nat) in (9 \<le> n \<and> n \<le> 13) \<or> n = 32)"

definition py_isdigit :: "char \<Rightarrow> bool" where
  "py_isdigit c = (let n = (of_char c :: nat) in 48 \<le> n \<and> n \<le> 57)"

definition digit_val :: "char \<Rightarrow> int" where
  "digit_val c = int (of_char c) - 48"

fun py_digits :: "string \<Rightarrow> int \<Rightarrow> int option" where
  "py_digits [] acc = Some acc"
| "py_digits (c # cs) acc =
     (if py_isdigit c then py_digits cs (acc * 10 + digit_val c)
      else if c = CHR ''_'' \<and> cs \<noteq> [] \<and> py_isdigit (hd cs) then py_digits cs acc
      else None)"

definition py_strip :: "string \<Rightarrow> string" where
  "py_strip s = rev (dropWhile py_isspace (rev (dropWhile py_isspace s)))"

definition ValueError_int :: "string \<Rightarrow> pyexn" where
  "ValueError_int s =
     PyExn ''ValueError''
       (''invalid literal for int() with base 10: '' @ [CHR 0x27] @ s @ [CHR 0x27])"

definition py_int :: "string \<Rightarrow> pyexn + int" where
  "py_int s =
     (let t = py_strip s;
          neg = (t \<noteq> [] \<and> hd t = CHR ''-'');
          ds = (if t \<noteq> [] \<and> (hd t = CHR ''-'' \<or> hd t = CHR ''+'') then tl t else t)
      in if ds = [] \<or> \<not> py_isdigit (hd ds) then Inl (ValueError_int s)
         else (case py_digits ds 0 of
                 None \<Rightarrow> Inl (ValueError_int s)
               | Some v \<Rightarrow> Inr (if neg then - v else v)))"

subsection \<open>\<^verbatim>\<open>/search\<close>\<close>

definition no_results_record :: pydict where
  "no_results_record =
     [(''title'', PStr ''No Results Found''),
      (''url'', PStr ''#''),
      (''snippet'', PStr ''Both Google and DuckDuckGo failed to return results.''),
      (''source'', PStr ''System'')]"

text \<open>
  The \<^verbatim>\<open>with ThreadPoolExecutor\<close> block of \<^verbatim>\<open>search\<close>: both clients are submitted, the
  structured client's result is read first, and \<^verbatim>\<open>final_results\<close> is chosen. The trace lists
  the two submissions, then the requests of each client.
\<close>

definition aggregate :: "config \<Rightarrow> world \<Rightarrow> string \<Rightarrow> int \<Rightarrow> event list \<times> pydict list" where
  "aggregate cfg w q page =
     (let future_google = google_search_api cfg w q page;
          future_ddg = ddg_lite_search w q page;
          google_results = snd future_google;
          final_results =
            (case google_results of
               None \<Rightarrow> snd future_ddg
             | Some gs \<Rightarrow> if gs \<noteq> [] \<and> length gs > 0 then gs else snd future_ddg)
      in ([Submitted ''google_search_api'' q page, Submitted ''ddg_lite_search'' q page]
            @ fst future_google @ fst future_ddg,
          final_results))"

text \<open>The substitution after the block: \<^verbatim>\<open>if not final_results and page == 1\<close>.\<close>

definition fallback :: "pydict list \<Rightarrow> int \<Rightarrow> pydict list" where
  "fallback final_results page =
     (if final_results = [] \<and> page = 1 then [no_results_record] else final_results)"

text \<open>\<^verbatim>\<open>{"results": final_results or []}\<close>\<close>

definition results_body :: "pydict list \<Rightarrow> pyval" where
  "results_body final_results =
     PDict [(''results'', PList (map PDict (if final_results \<noteq> [] then final_results else [])))]"

text \<open>
  The handler, from the query parameters of the request. \<^verbatim>\<open>request.args.get\<close> gives the
  first value of a parameter (\<open>arg_q\<close> is \<^verbatim>\<open>request.args.get("q", "")\<close>, \<open>arg_page\<close> is
  \<^verbatim>\<open>int(request.args.get("page", 1))\<close>, evaluated before \<open>q\<close> is tested). An exception the
  handler does not catch is the \<open>Inl\<close> result: it reaches Flask, which answers with its own
  error page.
\<close>

definition arg_q :: "(string \<times> string) list \<Rightarrow> string" where
  "arg_q args = (case map_of args ''q'' of Some s \<Rightarrow> s | None \<Rightarrow> [])"

definition arg_page :: "(string \<times> string) list \<Rightarrow> pyexn + int" where
  "arg_page args = (case map_of args ''page'' of Some s \<Rightarrow> py_int s | None \<Rightarrow> Inr 1)"

definition search ::
  "config \<Rightarrow> world \<Rightarrow> (string \<times> string) list \<Rightarrow> event list \<times> (pyexn + response)" where
  "search cfg w args =
     (let q = arg_q args
      in case arg_page args of
           Inl e \<Rightarrow> ([], Inl e)
         | Inr page \<Rightarrow>
             if q = [] then ([], Inr (jsonify (PDict [(''results'', PList [])])))
             else
               let block = aggregate cfg w q page;
                   final_results = fallback (snd block) page
               in (fst block, Inr (jsonify (results_body final_results))))"

subsection \<open>\<^verbatim>\<open>/chat\<close>\<close>

definition groq_url :: string where
  "groq_url = ''https://api.groq.com/openai/v1/chat/completions''"

definition chat_message :: "string \<Rightarrow> pyval" where
  "chat_message content =
     PDict [(''choices'', PList [PDict [(''message'', PDict [(''content'', PStr content)])]])]"

text \<open>The \<^verbatim>\<open>json\<close> argument of the upstream request.\<close>

definition groq_payload :: "pyval \<Rightarrow> pydict" where
  "groq_payload messages =
     [(''model'', PStr ''llama-3.3-70b-versatile''),
      (''messages'', messages),
      (''temperature'', PFloat ''0.7'')]"

text \<open>
  The body of the \<^verbatim>\<open>try\<close>, from the outcome of \<^verbatim>\<open>request.json\<close>. The status code of the
  upstream response is not looked at.
\<close>

definition chat_try :: "world \<Rightarrow> pyexn + pyval \<Rightarrow> event list \<times> (pyexn + response)" where
  "chat_try w request_json =
     (case request_json of
        Inl e \<Rightarrow> ([], Inl e)
      | Inr data \<Rightarrow>
          (case py_get data ''messages'' (PList []) of
             Inl e \<Rightarrow> ([], Inl e)
           | Inr messages \<Rightarrow>
               let payload = groq_payload messages
               in ([Requested ''POST'' groq_url payload],
                   (case requests_post_groq w payload of
                      Raises e \<Rightarrow> Inl e
                    | Response status_code json \<Rightarrow>
                        (case json of
                           Inl e \<Rightarrow> Inl e
                         | Inr v \<Rightarrow> Inr (jsonify v))))))"

definition chat_proxy ::
  "config \<Rightarrow> world \<Rightarrow> pyexn + pyval \<Rightarrow> event list \<times> (pyexn + response)" where
  "chat_proxy cfg w request_json =
     (if \<not> env_truthy (GROQ_API_KEY cfg) then
        ([], Inr (jsonify (chat_message ''**Error:** GROQ_API_KEY not configured.'')))
      else
        (case chat_try w request_json of
           (tr, Inl e) \<Rightarrow> (tr, Inr (jsonify (chat_message (''**System Error:** '' @ exn_str e))))
         | (tr, Inr r) \<Rightarrow> (tr, Inr r)))"

section \<open>Notions the properties are stated with\<close>

text \<open>A row with neither a result link nor a result snippet: the loop passes over it.\<close>

definition is_other_row :: "row \<Rightarrow> bool" where
  "is_other_row r = (link_tag r = None \<and> snippet_tag r = None)"

text \<open>The finished record of the scraping client, with its keys in insertion order.\<close>

definition ddg_result :: "string \<Rightarrow> string \<Rightarrow> string \<Rightarrow> pydict" where
  "ddg_result t u s =
     [(''title'', PStr t), (''url'', PStr u), (''source'', PStr ''DuckDuckGo''),
      (''snippet'', PStr s)]"

text \<open>
  \<open>d\<close> is the record of a link row and the first snippet row after it, with nothing but
  passed-over rows between the two.
\<close>

definition paired :: "row list \<Rightarrow> pydict \<Rightarrow> bool" where
  "paired rows d =
     (\<exists>pre lr lt h mid sr st post.
        rows = pre @ lr # mid @ sr # post \<and>
        link_tag lr = Some lt \<and> map_of (attrs lt) ''href'' = Some h \<and>
        (\<forall>m\<in>set mid. is_other_row m) \<and>
        link_tag sr = None \<and> snippet_tag sr = Some st \<and>
        d = ddg_result (get_text lt) h (get_text st))"

text \<open>The same for a link already in \<^verbatim>\<open>current_result\<close> when the rows start.\<close>

definition pending_pairs :: "pydict \<Rightarrow> row list \<Rightarrow> pydict \<Rightarrow> bool" where
  "pending_pairs cur rows d =
     (cur \<noteq> [] \<and> (\<exists>mid sr st post.
        rows = mid @ sr # post \<and> (\<forall>m\<in>set mid. is_other_row m) \<and>
        link_tag sr = None \<and> snippet_tag sr = Some st \<and>
        d = AList.update ''snippet'' (PStr (get_text st)) cur))"

text \<open>A record whose URL is a string that contains the scraped host's domain.\<close>

definition is_internal :: "pydict \<Rightarrow> bool" where
  "is_internal r =
     (case map_of r ''url'' of Some (PStr u) \<Rightarrow> sublist ''duckduckgo.com'' u | _ \<Rightarrow> False)"

text \<open>A field that is present and not \<^verbatim>\<open>None\<close>.\<close>

definition non_null :: "pydict \<Rightarrow> string \<Rightarrow> bool" where
  "non_null r k = (case map_of r k of Some v \<Rightarrow> v \<noteq> PNone | None \<Rightarrow> False)"

text \<open>
  A record \<open>r\<close> set against an upstream item: its source is \<^verbatim>\<open>Google\<close>, its title, URL and
  snippet are the item's \<^verbatim>\<open>title\<close>, \<^verbatim>\<open>link\<close> and \<^verbatim>\<open>snippet\<close>, or \<^verbatim>\<open>None\<close> where the item has
  no such key, and so each of the three is non-null exactly when the item's field is.
\<close>

definition from_item :: "pydict \<Rightarrow> pydict \<Rightarrow> bool" where
  "from_item r item =
     (map_of r ''source'' = Some (PStr ''Google'') \<and>
      map_of r ''title'' = Some (case map_of item ''title'' of Some v \<Rightarrow> v | None \<Rightarrow> PNone) \<and>
      map_of r ''url'' = Some (case map_of item ''link'' of Some v \<Rightarrow> v | None \<Rightarrow> PNone) \<and>
      map_of r ''snippet'' = Some (case map_of item ''snippet'' of Some v \<Rightarrow> v | None \<Rightarrow> PNone) \<and>
      non_null r ''title'' = non_null item ''title'' \<and>
      non_null r ''url'' = non_null item ''link'' \<and>
      non_null r ''snippet'' = non_null item ''snippet'')"

text \<open>\<^verbatim>\<open>v["choices"][0]["message"]["content"]\<close> of a payload, when it is there and a string.\<close>

definition chat_content :: "pyval \<Rightarrow> string option" where
  "chat_content v =
     (case v of
        PDict d \<Rightarrow>
          (case map_of d ''choices'' of
             Some (PList (PDict c # cs)) \<Rightarrow>
               (case map_of c ''message'' of
                  Some (PDict m) \<Rightarrow>
                    (case map_of m ''content'' of Some (PStr s) \<Rightarrow> Some s | _ \<Rightarrow> None)
                | _ \<Rightarrow> None)
           | _ \<Rightarrow> None)
      | _ \<Rightarrow> None)"

section \<open>Example inputs\<close>

definition link_row :: "string \<Rightarrow> string \<Rightarrow> row" where
  "link_row t h = \<lparr>link_tag = Some (Tag t [(''href'', h)]), snippet_tag = None\<rparr>"

definition snippet_row :: "string \<Rightarrow> row" where
  "snippet_row s = \<lparr>link_tag = None, snippet_tag = Some (Tag s [])\<rparr>"

definition other_row :: row where
  "other_row = \<lparr>link_tag = None, snippet_tag = None\<rparr>"

text \<open>A table of one result: a link row, a row of neither kind, the snippet row.\<close>

definition table_a :: "row list" where
  "table_a = [link_row ''A'' ''https://a.example/'', other_row, snippet_row ''about a'']"

text \<open>A page of seventeen results, the second of them a link back to the scraped host.\<close>

definition table_17 :: "row list" where
  "table_17 =
     [link_row ''A'' ''https://a.example/'', snippet_row ''about a'',
      link_row ''D'' ''https://duckduckgo.com/y.js'', snippet_row ''ad'']
     @ concat (replicate 15 [link_row ''B'' ''https://b.example/'', snippet_row ''about b''])"

definition unreachable :: "pydict \<Rightarrow> 'a http_result" where
  "unreachable req = Raises (PyExn ''ConnectionError'' ''connection refused'')"

definition ddg_serves :: "row list \<Rightarrow> pydict \<Rightarrow> row list http_result" where
  "ddg_serves rows req = Response 200 (Inr rows)"

definition serves_json :: "pyval \<Rightarrow> pydict \<Rightarrow> pyval http_result" where
  "serves_json data req = Response 200 (Inr data)"

definition config_none :: config where
  "config_none = \<lparr>GROQ_API_KEY = None, GOOGLE_API_KEY = None, GOOGLE_CX_ID = None\<rparr>"

definition config_all :: config where
  "config_all =
     \<lparr>GROQ_API_KEY = Some ''gsk'', GOOGLE_API_KEY = Some ''key'', GOOGLE_CX_ID = Some ''cx''\<rparr>"

text \<open>An upstream answer with one complete item, and one whose item has no snippet.\<close>

definition items_full :: pyval where
  "items_full =
     PDict [(''items'', PList [PDict [(''title'', PStr ''G''), (''link'', PStr ''https://g.example/''),
                                    (''snippet'', PStr ''about g'')]])]"

definition items_no_snippet :: pyval where
  "items_no_snippet =
     PDict [(''items'', PList [PDict [(''title'', PStr ''T''), (''link'', PStr ''https://t.example/'')]])]"

definition world_both :: world where
  "world_both =
     \<lparr>requests_get_google = serves_json items_full,
      requests_post_ddg = ddg_serves table_a,
      requests_post_groq = unreachable\<rparr>"

definition world_google_empty :: world where
  "world_google_empty =
     \<lparr>requests_get_google = serves_json (PDict []),
      requests_post_ddg = ddg_serves table_a,
      requests_post_groq = unreachable\<rparr>"

definition world_no_snippet :: world where
  "world_no_snippet =
     \<lparr>requests_get_google = serves_json items_no_snippet,
      requests_post_ddg = unreachable,
      requests_post_groq = unreachable\<rparr>"

definition world_down :: world where
  "world_down =
     \<lparr>requests_get_google = unreachable,
      requests_post_ddg = unreachable,
      requests_post_groq = unreachable\<rparr>"

definition world_ddg_17 :: world where
  "world_ddg_17 =
     \<lparr>requests_get_google = unreachable,
      requests_post_ddg = ddg_serves table_17,
      requests_post_groq = unreachable\<rparr>"

section \<open>The scraping parser\<close>

lemma link_result_Inr:
  "link_result lt = Inr cur \<longleftrightarrow>
     (\<exists>h. map_of (attrs lt) ''href'' = Some h \<and>
        cur = [(''title'', PStr (get_text lt)), (''url'', PStr h), (''source'', PStr ''DuckDuckGo'')])"
  by (auto simp: link_result_def split: option.splits)

lemma update_link_result:
  "link_result lt = Inr cur \<Longrightarrow> map_of (attrs lt) ''href'' = Some h \<Longrightarrow>
   AList.update ''snippet'' (PStr s) cur = ddg_result (get_text lt) h s"
  by (auto simp: link_result_Inr ddg_result_def)

lemma ddg_rows_other:
  "\<forall>m\<in>set mid. is_other_row m \<Longrightarrow> ddg_rows (mid @ rows) results cur = ddg_rows rows results cur"
  by (induction mid) (auto simp: is_other_row_def)

lemma paired_Cons: "paired rows d \<Longrightarrow> paired (r # rows) d"
proof -
  assume "paired rows d"
  then obtain pre lr lt h mid sr st post where
    rows: "rows = pre @ lr # mid @ sr # post" and
    rest: "link_tag lr = Some lt" "map_of (attrs lt) ''href'' = Some h"
      "\<forall>m\<in>set mid. is_other_row m" "link_tag sr = None" "snippet_tag sr = Some st"
      "d = ddg_result (get_text lt) h (get_text st)"
    unfolding paired_def by blast
  from rows have "r # rows = (r # pre) @ lr # mid @ sr # post" by simp
  with rest show ?thesis unfolding paired_def by blast
qed

lemma pending_pairs_other:
  assumes "is_other_row r" and "pending_pairs cur rows d"
  shows "pending_pairs cur (r # rows) d"
proof -
  from assms(2) obtain mid sr st post where
    cur: "cur \<noteq> []" and rows: "rows = mid @ sr # post" and
    mid: "\<forall>m\<in>set mid. is_other_row m" and
    rest: "link_tag sr = None" "snippet_tag sr = Some st"
      "d = AList.update ''snippet'' (PStr (get_text st)) cur"
    unfolding pending_pairs_def by blast
  from rows have "r # rows = (r # mid) @ sr # post" by simp
  moreover from mid assms(1) have "\<forall>m\<in>set (r # mid). is_other_row m" by simp
  ultimately show ?thesis using cur rest unfolding pending_pairs_def by blast
qed

lemma pending_pairs_here:
  assumes "cur \<noteq> []" and "link_tag r = None" and "snippet_tag r = Some st"
  shows "pending_pairs cur (r # rows) (AList.update ''snippet'' (PStr (get_text st)) cur)"
proof -
  have "r # rows = [] @ r # rows" by simp
  moreover have "\<forall>m\<in>set ([] :: row list). is_other_row m" by simp
  ultimately show ?thesis using assms unfolding pending_pairs_def by blast
qed

lemma pending_pairs_link:
  assumes "link_tag r = Some lt" and "link_result lt = Inr c" and "pending_pairs c rows d"
  shows "paired (r # rows) d"
proof -
  from assms(3) obtain mid sr st post where
    rows: "rows = mid @ sr # post" and
    mid: "\<forall>m\<in>set mid. is_other_row m" and
    rest: "link_tag sr = None" "snippet_tag sr = Some st" and
    d: "d = AList.update ''snippet'' (PStr (get_text st)) c"
    unfolding pending_pairs_def by blast
  from assms(2) obtain h where h: "map_of (attrs lt) ''href'' = Some h"
    by (auto simp: link_result_Inr)
  from d have d': "d = ddg_result (get_text lt) h (get_text st)"
    by (simp add: update_link_result [OF assms(2) h])
  from rows have "r # rows = [] @ r # mid @ sr # post" by simp
  with assms(1) h mid rest d' show ?thesis unfolding paired_def by blast
qed

lemma ddg_rows_sound:
  "ddg_rows rows results cur = Inr out \<Longrightarrow> d \<in> set out \<Longrightarrow>
   d \<in> set results \<or> pending_pairs cur rows d \<or> paired rows d"
proof (induction rows arbitrary: results cur)
  case Nil
  then show ?case by simp
next
  case (Cons r rows)
  show ?case
  proof (cases "link_tag r")
    case (Some lt)
    with Cons.prems obtain c where c: "link_result lt = Inr c"
      and run: "ddg_rows rows results c = Inr out"
      by (auto split: sum.splits)
    from Cons.IH [OF run Cons.prems(2)] show ?thesis
      using pending_pairs_link [OF Some c] paired_Cons by blast
  next
    case None
    show ?thesis
    proof (cases "snippet_tag r")
      case nosnip: None
      with None Cons.prems have run: "ddg_rows rows results cur = Inr out" by simp
      have "is_other_row r" using None nosnip by (simp add: is_other_row_def)
      with Cons.IH [OF run Cons.prems(2)] show ?thesis
        using pending_pairs_other paired_Cons by blast
    next
      case (Some st)
      show ?thesis
      proof (cases "cur = []")
        case True
        with None Some Cons.prems have run: "ddg_rows rows results [] = Inr out" by simp
        have "\<not> pending_pairs [] rows d" by (simp add: pending_pairs_def)
        with Cons.IH [OF run Cons.prems(2)] show ?thesis
          using paired_Cons by blast
      next
        case False
        with None Some Cons.prems have run:
          "ddg_rows rows (results @ [AList.update ''snippet'' (PStr (get_text st)) cur]) [] = Inr out"
          by simp
        have "\<not> pending_pairs [] rows d" by (simp add: pending_pairs_def)
        with Cons.IH [OF run Cons.prems(2)] show ?thesis
          using paired_Cons pending_pairs_here [OF False None Some] by auto
      qed
    qed
  qed
qed

lemma ddg_rows_paired:
  "ddg_rows rows [] [] = Inr out \<Longrightarrow> d \<in> set out \<Longrightarrow> paired rows d"
  using ddg_rows_sound [of rows "[]" "[]" out d] by (simp add: pending_pairs_def)

lemma ddg_rows_dangling:
  "link_tag lr = Some lt \<Longrightarrow> link_result lt = Inr c \<Longrightarrow> \<forall>m\<in>set mid. is_other_row m \<Longrightarrow>
   ddg_rows (pre @ lr # mid) results cur = ddg_rows pre results cur"
proof (induction pre arbitrary: results cur)
  case Nil
  then show ?case using ddg_rows_other [of mid "[]" results c] by simp
next
  case (Cons r pre)
  then show ?case by (simp split: option.splits sum.splits)
qed

lemma ddg_rows_prefix:
  "(\<And>results cur. ddg_rows xs results cur = ddg_rows ys results cur) \<Longrightarrow>
   ddg_rows (pre @ xs) results cur = ddg_rows (pre @ ys) results cur"
  by (induction pre arbitrary: results cur) (simp_all split: option.splits sum.splits)

lemma ddg_rows_relink:
  assumes "link_tag l1 = Some t1" "link_result t1 = Inr c1" "\<forall>m\<in>set mid. is_other_row m"
    "link_tag l2 = Some t2"
  shows "ddg_rows (l1 # mid @ l2 # rows) results cur = ddg_rows (l2 # rows) results cur"
proof -
  have "ddg_rows (l1 # mid @ l2 # rows) results cur = ddg_rows (mid @ l2 # rows) results c1"
    using assms(1,2) by simp
  also have "\<dots> = ddg_rows (l2 # rows) results c1"
    using assms(3) by (rule ddg_rows_other)
  also have "\<dots> = ddg_rows (l2 # rows) results cur"
    using assms(4) by simp
  finally show ?thesis .
qed

lemma ddg_rows_shape:
  "ddg_rows rows [] [] = Inr out \<Longrightarrow> d \<in> set out \<Longrightarrow> \<exists>t u s. d = ddg_result t u s"
  using ddg_rows_paired [of rows out d] unfolding paired_def by blast

lemma is_internal_ddg_result [simp]:
  "is_internal (ddg_result t u s) = sublist ''duckduckgo.com'' u"
  by (simp add: is_internal_def ddg_result_def)

lemma clean_results_shape:
  "\<forall>d\<in>set rs. \<exists>t u s. d = ddg_result t u s \<Longrightarrow>
   clean_results rs = Inr (filter (\<lambda>r. \<not> is_internal r) rs)"
proof (induction rs)
  case Nil
  then show ?case by simp
next
  case (Cons r rs)
  then obtain t u s where r: "r = ddg_result t u s" by auto
  have g: "dict_getitem r ''url'' = Inr (PStr u)"
    by (simp add: r dict_getitem_def ddg_result_def)
  from Cons have "clean_results rs = Inr (filter (\<lambda>r. \<not> is_internal r) rs)" by simp
  then show ?case using g by (simp add: r)
qed

lemma ddg_parse_rows:
  "ddg_rows rows [] [] = Inr results \<Longrightarrow>
   ddg_parse (Inr rows) = Inr (take 15 (filter (\<lambda>r. \<not> is_internal r) results))"
  using clean_results_shape [of results] ddg_rows_shape [of rows results]
  by (simp add: ddg_parse_def)

lemma ddg_parse_shape:
  assumes "ddg_parse soup = Inr out" "d \<in> set out"
  shows "\<exists>t u s. d = ddg_result t u s \<and> \<not> sublist ''duckduckgo.com'' u"
proof -
  from assms(1) obtain rows results where soup: "soup = Inr rows"
    and rows: "ddg_rows rows [] [] = Inr results"
    by (auto simp: ddg_parse_def split: sum.splits)
  from ddg_parse_rows [OF rows] assms(1) soup
  have out: "out = take 15 (filter (\<lambda>r. \<not> is_internal r) results)" by simp
  with assms(2) have "d \<in> set (filter (\<lambda>r. \<not> is_internal r) results)"
    by (auto dest: in_set_takeD)
  then have d: "d \<in> set results" "\<not> is_internal d" by auto
  from ddg_rows_shape [OF rows d(1)] obtain t u s where "d = ddg_result t u s" by blast
  with d(2) show ?thesis by auto
qed

lemma ddg_parse_length: "ddg_parse soup = Inr out \<Longrightarrow> length out \<le> 15"
  by (auto simp: ddg_parse_def split: sum.splits)

lemma ddg_lite_search_cases:
  "snd (ddg_lite_search w q page) = [] \<or>
   (\<exists>soup. requests_post_ddg w (ddg_payload q page) = Response 200 soup \<and>
      ddg_parse soup = Inr (snd (ddg_lite_search w q page)))"
  by (auto simp: ddg_lite_search_def Let_def split: http_result.splits sum.splits)

lemma ddg_lite_search_shape:
  assumes "d \<in> set (snd (ddg_lite_search w q page))"
  shows "\<exists>t u s. d = ddg_result t u s \<and> \<not> sublist ''duckduckgo.com'' u"
  using ddg_lite_search_cases [of w q page] assms ddg_parse_shape by fastforce

lemma ddg_lite_search_length: "length (snd (ddg_lite_search w q page)) \<le> 15"
  using ddg_lite_search_cases [of w q page] ddg_parse_length by fastforce

text \<open>
  Claim C5. The parser of the scraping client is a two-state machine. (1) Every record in
  its output is the record of a link row and of the first snippet row after it, with only
  rows of neither kind between the two. (2) A snippet row that arrives while no link is
  pending changes nothing. (3) A link row followed by no snippet row before the table ends
  leaves the output as it was before that row. (4) A link row followed, after rows of
  neither kind, by a snippet row appends its record and empties the pending buffer.
\<close>

theorem ddg_rows_state_machine:
  "(ddg_rows rows [] [] = Inr out \<longrightarrow> d \<in> set out \<longrightarrow> paired rows d) \<and>
   (link_tag r = None \<longrightarrow> snippet_tag r = Some st \<longrightarrow>
      ddg_rows (r # rest) results [] = ddg_rows rest results []) \<and>
   (link_tag lr = Some lt \<longrightarrow> link_result lt = Inr c \<longrightarrow> (\<forall>m\<in>set mid. is_other_row m) \<longrightarrow>
      ddg_rows (pre @ lr # mid) results' cur = ddg_rows pre results' cur) \<and>
   (link_tag lr = Some lt \<longrightarrow> link_result lt = Inr c \<longrightarrow> (\<forall>m\<in>set mid. is_other_row m) \<longrightarrow>
    link_tag sr = None \<longrightarrow> snippet_tag sr = Some st' \<longrightarrow>
      ddg_rows (lr # mid @ sr # post) results' cur
        = ddg_rows post (results' @ [AList.update ''snippet'' (PStr (get_text st')) c]) [])"
proof (intro conjI impI)
  assume "ddg_rows rows [] [] = Inr out" "d \<in> set out"
  then show "paired rows d" by (rule ddg_rows_paired)
next
  assume "link_tag r = None" "snippet_tag r = Some st"
  then show "ddg_rows (r # rest) results [] = ddg_rows rest results []" by simp
next
  assume "link_tag lr = Some lt" "link_result lt = Inr c" "\<forall>m\<in>set mid. is_other_row m"
  then show "ddg_rows (pre @ lr # mid) results' cur = ddg_rows pre results' cur"
    by (rule ddg_rows_dangling)
next
  assume l: "link_tag lr = Some lt" "link_result lt = Inr c"
    and m: "\<forall>m\<in>set mid. is_other_row m"
    and sn: "link_tag sr = None" "snippet_tag sr = Some st'"
  from l have "ddg_rows (lr # mid @ sr # post) results' cur
      = ddg_rows (mid @ sr # post) results' c"
    by simp
  also from m have "\<dots> = ddg_rows (sr # post) results' c" by (rule ddg_rows_other)
  also from sn l(2) have "\<dots>
      = ddg_rows post (results' @ [AList.update ''snippet'' (PStr (get_text st')) c]) []"
    by (auto simp: link_result_Inr)
  finally show "ddg_rows (lr # mid @ sr # post) results' cur
      = ddg_rows post (results' @ [AList.update ''snippet'' (PStr (get_text st')) c]) []" .
qed

theorem ddg_rows_state_machine_witness:
  "paired table_a (ddg_result ''A'' ''https://a.example/'' ''about a'') \<and>
   ddg_rows (snippet_row ''stray'' # table_a) [] [] = ddg_rows table_a [] [] \<and>
   ddg_rows (table_a @ link_row ''B'' ''https://b.example/'' # [other_row]) [] []
     = ddg_rows table_a [] [] \<and>
   ddg_rows (link_row ''B'' ''https://b.example/'' # [other_row] @ snippet_row ''about b'' # table_a)
       [] []
     = ddg_rows table_a [ddg_result ''B'' ''https://b.example/'' ''about b''] []"
  using ddg_rows_state_machine
    [where rows = table_a and out = "[ddg_result ''A'' ''https://a.example/'' ''about a'']"
       and d = "ddg_result ''A'' ''https://a.example/'' ''about a''"
       and r = "snippet_row ''stray''" and st = "Tag ''stray'' []" and rest = table_a
       and results = "[]"
       and lr = "link_row ''B'' ''https://b.example/''"
       and lt = "Tag ''B'' [(''href'', ''https://b.example/'')]"
       and c = "[(''title'', PStr ''B''), (''url'', PStr ''https://b.example/''),
                 (''source'', PStr ''DuckDuckGo'')]"
       and mid = "[other_row]" and pre = table_a and results' = "[]" and cur = "[]"
       and sr = "snippet_row ''about b''" and st' = "Tag ''about b'' []" and post = table_a]
  by (simp add: table_a_def link_row_def snippet_row_def other_row_def link_result_def
        ddg_result_def is_other_row_def)

text \<open>
  Claim C10. (1) After a link row the pending buffer is that row's record, whatever it held
  before: the rest of the table is read with that record pending. (2) So a link row that is followed, after rows of neither kind, by another link
  row is dropped, anywhere in the table: the output is the same as without it. (3) A row
  with both a result link and a result snippet is read as a link row: its snippet plays no
  part.
\<close>

theorem ddg_rows_link_overwrites:
  "(link_tag l2 = Some t2 \<longrightarrow>
      ddg_rows (l2 # rows) results cur = ddg_rows (l2 # rows) results cur') \<and>
   (link_tag l2 = Some t2 \<longrightarrow> link_result t2 = Inr c2 \<longrightarrow>
      ddg_rows (l2 # rows) results cur = ddg_rows rows results c2) \<and>
   (link_tag l1 = Some t1 \<longrightarrow> link_result t1 = Inr c1 \<longrightarrow> (\<forall>m\<in>set mid. is_other_row m) \<longrightarrow>
    link_tag l2 = Some t2 \<longrightarrow>
      ddg_rows (pre @ l1 # mid @ l2 # rows) results cur
        = ddg_rows (pre @ l2 # rows) results cur) \<and>
   (link_tag r = Some t \<longrightarrow>
      ddg_rows (r # rows) results cur = ddg_rows (r\<lparr>snippet_tag := None\<rparr> # rows) results cur)"
proof (intro conjI impI)
  assume "link_tag l2 = Some t2"
  then show "ddg_rows (l2 # rows) results cur = ddg_rows (l2 # rows) results cur'" by simp
next
  assume "link_tag l2 = Some t2" "link_result t2 = Inr c2"
  then show "ddg_rows (l2 # rows) results cur = ddg_rows rows results c2" by simp
next
  assume "link_tag l1 = Some t1" "link_result t1 = Inr c1" "\<forall>m\<in>set mid. is_other_row m"
    "link_tag l2 = Some t2"
  then have "\<And>results cur.
      ddg_rows (l1 # mid @ l2 # rows) results cur = ddg_rows (l2 # rows) results cur"
    by (rule ddg_rows_relink)
  then show "ddg_rows (pre @ l1 # mid @ l2 # rows) results cur
      = ddg_rows (pre @ l2 # rows) results cur"
    by (rule ddg_rows_prefix)
next
  assume "link_tag r = Some t"
  then show "ddg_rows (r # rows) results cur
      = ddg_rows (r\<lparr>snippet_tag := None\<rparr> # rows) results cur"
    by simp
qed

theorem ddg_rows_link_overwrites_witness:
  "ddg_rows (link_row ''B'' ''https://b.example/'' # [snippet_row ''about b'']) []
      [(''title'', PStr ''old'')]
     = ddg_rows (link_row ''B'' ''https://b.example/'' # [snippet_row ''about b'']) [] [] \<and>
   ddg_rows (link_row ''B'' ''https://b.example/'' # [snippet_row ''about b'']) []
      [(''title'', PStr ''old'')]
     = Inr [ddg_result ''B'' ''https://b.example/'' ''about b''] \<and>
   ddg_rows (table_a @ link_row ''C'' ''https://c.example/'' # [other_row]
               @ link_row ''B'' ''https://b.example/'' # [snippet_row ''about b'']) [] []
     = ddg_rows (table_a @ link_row ''B'' ''https://b.example/'' # [snippet_row ''about b''])
         [] [] \<and>
   ddg_rows (\<lparr>link_tag = Some (Tag ''B'' [(''href'', ''https://b.example/'')]),
               snippet_tag = Some (Tag ''own snippet'' [])\<rparr> # [snippet_row ''about b'']) [] []
     = ddg_rows (\<lparr>link_tag = Some (Tag ''B'' [(''href'', ''https://b.example/'')]),
                  snippet_tag = Some (Tag ''own snippet'' [])\<rparr>\<lparr>snippet_tag := None\<rparr>
                 # [snippet_row ''about b'']) [] []"
  using ddg_rows_link_overwrites
    [where ?l2.0 = "link_row ''B'' ''https://b.example/''"
       and ?t2.0 = "Tag ''B'' [(''href'', ''https://b.example/'')]"
       and ?c2.0 = "[(''title'', PStr ''B''), (''url'', PStr ''https://b.example/''),
                     (''source'', PStr ''DuckDuckGo'')]"
       and rows = "[snippet_row ''about b'']" and results = "[]"
       and cur = "[(''title'', PStr ''old'')]" and cur' = "[]"]
    ddg_rows_link_overwrites
    [where ?l1.0 = "link_row ''C'' ''https://c.example/''"
       and ?t1.0 = "Tag ''C'' [(''href'', ''https://c.example/'')]"
       and ?c1.0 = "[(''title'', PStr ''C''), (''url'', PStr ''https://c.example/''),
                     (''source'', PStr ''DuckDuckGo'')]"
       and mid = "[other_row]"
       and ?l2.0 = "link_row ''B'' ''https://b.example/''"
       and ?t2.0 = "Tag ''B'' [(''href'', ''https://b.example/'')]"
       and pre = table_a
       and rows = "[snippet_row ''about b'']" and results = "[]" and cur = "[]"]
    ddg_rows_link_overwrites
    [where r = "\<lparr>link_tag = Some (Tag ''B'' [(''href'', ''https://b.example/'')]),
                  snippet_tag = Some (Tag ''own snippet'' [])\<rparr>"
       and t = "Tag ''B'' [(''href'', ''https://b.example/'')]"
       and rows = "[snippet_row ''about b'']" and results = "[]" and cur = "[]"]
  by (simp add: link_row_def snippet_row_def other_row_def link_result_def is_other_row_def
        ddg_result_def)

text \<open>
  Claim C7. The list the scraping client returns has at most 15 records, and the URL of each
  is a string that does not contain \<^verbatim>\<open>duckduckgo.com\<close>. On a page that parses, the list is the
  first 15 of the parsed records that are left after the records with such a URL are
  removed: the filter comes before the cap.
\<close>

theorem ddg_lite_search_filter_then_cap:
  "length (snd (ddg_lite_search w q page)) \<le> 15 \<and>
   (\<forall>r\<in>set (snd (ddg_lite_search w q page)).
      \<exists>u. map_of r ''url'' = Some (PStr u) \<and> \<not> sublist ''duckduckgo.com'' u) \<and>
   (requests_post_ddg w (ddg_payload q page) = Response 200 (Inr rows) \<longrightarrow>
    ddg_rows rows [] [] = Inr results \<longrightarrow>
      snd (ddg_lite_search w q page) = take 15 (filter (\<lambda>r. \<not> is_internal r) results))"
proof (intro conjI ballI impI)
  show "length (snd (ddg_lite_search w q page)) \<le> 15" by (rule ddg_lite_search_length)
next
  fix r assume "r \<in> set (snd (ddg_lite_search w q page))"
  from ddg_lite_search_shape [OF this]
  show "\<exists>u. map_of r ''url'' = Some (PStr u) \<and> \<not> sublist ''duckduckgo.com'' u"
    by (auto simp: ddg_result_def)
next
  assume "requests_post_ddg w (ddg_payload q page) = Response 200 (Inr rows)"
    and "ddg_rows rows [] [] = Inr results"
  then show "snd (ddg_lite_search w q page) = take 15 (filter (\<lambda>r. \<not> is_internal r) results)"
    by (simp add: ddg_lite_search_def ddg_parse_rows)
qed

lemma table_17_rows:
  "ddg_rows table_17 [] [] = Inr
     ([ddg_result ''A'' ''https://a.example/'' ''about a'',
       ddg_result ''D'' ''https://duckduckgo.com/y.js'' ''ad'']
      @ replicate 15 (ddg_result ''B'' ''https://b.example/'' ''about b''))"
  by (simp add: table_17_def link_row_def snippet_row_def link_result_def ddg_result_def
       numeral_eq_Suc)

theorem ddg_lite_search_filter_then_cap_witness:
  "length (snd (ddg_lite_search world_ddg_17 ''q'' 1)) \<le> 15 \<and>
   snd (ddg_lite_search world_ddg_17 ''q'' 1)
     = ddg_result ''A'' ''https://a.example/'' ''about a''
       # replicate 14 (ddg_result ''B'' ''https://b.example/'' ''about b'')"
  using ddg_lite_search_filter_then_cap
    [where w = world_ddg_17 and q = "''q''" and page = 1 and rows = table_17
       and results = "[ddg_result ''A'' ''https://a.example/'' ''about a'',
         ddg_result ''D'' ''https://duckduckgo.com/y.js'' ''ad'']
        @ replicate 15 (ddg_result ''B'' ''https://b.example/'' ''about b'')"]
  by (simp add: world_ddg_17_def ddg_serves_def table_17_rows numeral_eq_Suc sublist_code prefix_code)

section \<open>The structured client and the search handler\<close>

lemma google_items_results:
  "google_items items results = Inr out \<Longrightarrow>
   \<exists>ds. items = map PDict ds \<and> out = results @ map google_result ds"
proof (induction items arbitrary: results)
  case Nil
  then show ?case by simp
next
  case (Cons item items)
  from Cons.prems obtain d where item: "item = PDict d"
    and run: "google_items items (results @ [google_result d]) = Inr out"
    by (auto split: pyval.splits)
  from Cons.IH [OF run] obtain ds where "items = map PDict ds"
    "out = (results @ [google_result d]) @ map google_result ds" by blast
  with item have "item # items = map PDict (d # ds) \<and> out = results @ map google_result (d # ds)"
    by simp
  then show ?case by (rule exI)
qed

lemma google_search_api_shape:
  "snd (google_search_api cfg w q page) = Some gs \<Longrightarrow> \<exists>ds. gs = map google_result ds"
  by (auto simp: google_search_api_def google_parse_def Let_def
        split: if_splits http_result.splits sum.splits dest!: google_items_results)

lemma google_search_api_ddg_irrelevant [simp]:
  "google_search_api cfg (w\<lparr>requests_post_ddg := f\<rparr>) q page = google_search_api cfg w q page"
  by (simp add: google_search_api_def)

lemma aggregate_google:
  "snd (google_search_api cfg w q page) = Some gs \<Longrightarrow> gs \<noteq> [] \<Longrightarrow>
   snd (aggregate cfg (w\<lparr>requests_post_ddg := f\<rparr>) q page) = gs"
  by (simp add: aggregate_def Let_def)

lemma aggregate_ddg:
  "snd (google_search_api cfg w q page) = None \<or> snd (google_search_api cfg w q page) = Some [] \<Longrightarrow>
   snd (aggregate cfg w q page) = snd (ddg_lite_search w q page)"
  by (auto simp: aggregate_def Let_def)

lemma search_page:
  "arg_page args = Inr page \<Longrightarrow> arg_q args \<noteq> [] \<Longrightarrow>
   search cfg w args =
     (fst (aggregate cfg w (arg_q args) page),
      Inr (jsonify (results_body (fallback (snd (aggregate cfg w (arg_q args) page)) page))))"
  by (simp add: search_def Let_def)

lemma search_empty_query:
  "arg_page args = Inr page \<Longrightarrow> arg_q args = [] \<Longrightarrow>
   search cfg w args = ([], Inr (jsonify (PDict [(''results'', PList [])])))"
  by (simp add: search_def Let_def)

lemma search_bad_page:
  "arg_page args = Inl e \<Longrightarrow> search cfg w args = ([], Inl e)"
  by (simp add: search_def Let_def)

lemma results_body_nonempty [simp]:
  "results_body rs = PDict [(''results'', PList (map PDict rs))]"
  by (simp add: results_body_def)

lemma aggregate_sources:
  "r \<in> set (snd (aggregate cfg w q page)) \<Longrightarrow>
   (\<exists>item. r = google_result item) \<or> (\<exists>t u s. r = ddg_result t u s)"
  using google_search_api_shape [of cfg w q page] ddg_lite_search_shape [of r w q page]
  by (fastforce simp: aggregate_def Let_def split: option.splits if_splits)

lemma source_google_result [simp]: "map_of (google_result item) ''source'' = Some (PStr ''Google'')"
  by (simp add: google_result_def)

lemma source_ddg_result [simp]: "map_of (ddg_result t u s) ''source'' = Some (PStr ''DuckDuckGo'')"
  by (simp add: ddg_result_def)

lemma not_synthetic:
  "r \<in> set (snd (aggregate cfg w q page)) \<Longrightarrow>
   map_of r ''source'' = Some (PStr ''Google'') \<or> map_of r ''source'' = Some (PStr ''DuckDuckGo'')"
  using aggregate_sources [of r cfg w q page] by auto

lemma non_null_google_result:
  "non_null (google_result item) ''title'' = non_null item ''title''"
  "non_null (google_result item) ''url'' = non_null item ''link''"
  "non_null (google_result item) ''snippet'' = non_null item ''snippet''"
  "non_null (google_result item) ''source''"
  by (simp_all add: non_null_def google_result_def dict_get_def split: option.splits)

lemma non_null_ddg_result:
  "non_null (ddg_result t u s) ''title''" "non_null (ddg_result t u s) ''url''"
  "non_null (ddg_result t u s) ''snippet''" "non_null (ddg_result t u s) ''source''"
  by (simp_all add: non_null_def ddg_result_def)

lemma non_null_no_results_record:
  "non_null no_results_record ''title''" "non_null no_results_record ''url''"
  "non_null no_results_record ''snippet''" "non_null no_results_record ''source''"
  by (simp_all add: non_null_def no_results_record_def)

lemma search_response:
  "snd (search cfg w args) = Inr resp \<Longrightarrow>
   \<exists>rs. resp = Http_json 200 (PDict [(''results'', PList (map PDict rs))]) \<and>
     (\<forall>r\<in>set rs. r = no_results_record \<or> (\<exists>item. r = google_result item) \<or>
         (\<exists>t u s. r = ddg_result t u s))"
proof -
  assume a: "snd (search cfg w args) = Inr resp"
  then obtain page where page: "arg_page args = Inr page"
    by (cases "arg_page args") (auto simp: search_bad_page)
  show ?thesis
  proof (cases "arg_q args = []")
    case True
    with a page have "resp = Http_json 200 (PDict [(''results'', PList (map PDict []))])"
      by (simp add: search_empty_query jsonify_def)
    then show ?thesis by (intro exI [of _ "[]"]) simp
  next
    case False
    let ?rs = "fallback (snd (aggregate cfg w (arg_q args) page)) page"
    from a page False have "resp = Http_json 200 (PDict [(''results'', PList (map PDict ?rs))])"
      by (simp add: search_page jsonify_def)
    moreover have "\<forall>r\<in>set ?rs. r = no_results_record \<or> (\<exists>item. r = google_result item) \<or>
         (\<exists>t u s. r = ddg_result t u s)"
      using aggregate_sources [of _ cfg w "arg_q args" page] by (auto simp: fallback_def)
    ultimately show ?thesis by blast
  qed
qed

lemma world_both_google:
  "snd (google_search_api config_all world_both ''x'' 1)
     = Some [[(''title'', PStr ''G''), (''url'', PStr ''https://g.example/''),
              (''snippet'', PStr ''about g''), (''source'', PStr ''Google'')]]"
  by (simp add: google_search_api_def config_all_def world_both_def serves_json_def
        google_parse_def items_full_def dict_get_def google_result_def Let_def)

lemma world_google_empty_google:
  "snd (google_search_api config_all world_google_empty ''x'' 1) = Some []"
  by (simp add: google_search_api_def config_all_def world_google_empty_def serves_json_def
        google_parse_def dict_get_def Let_def)

lemma table_a_rows:
  "ddg_rows table_a [] [] = Inr [ddg_result ''A'' ''https://a.example/'' ''about a'']"
  by (simp add: table_a_def link_row_def snippet_row_def other_row_def link_result_def
        ddg_result_def)

lemma table_a_search:
  "requests_post_ddg w (ddg_payload q page) = Response 200 (Inr table_a) \<Longrightarrow>
   snd (ddg_lite_search w q page) = [ddg_result ''A'' ''https://a.example/'' ''about a'']"
  by (simp add: ddg_lite_search_def ddg_parse_rows [OF table_a_rows] sublist_code prefix_code)

text \<open>
  Claim C1. (1) When the structured client yields a non-empty list, the result chosen in the
  handler is that list, and the response carries exactly it, whatever the scraping server
  does (\<open>f\<close> is any behaviour of it). (2) When the structured client yields \<^verbatim>\<open>None\<close> or the
  empty list, the result chosen is the list the scraping client returns for the same query
  and page. (3) The response is built from the chosen result by the substitution of the
  "no results" record, which comes after the choice.
\<close>

theorem aggregate_priority:
  "(snd (google_search_api cfg w q page) = Some gs \<longrightarrow> gs \<noteq> [] \<longrightarrow>
      snd (aggregate cfg (w\<lparr>requests_post_ddg := f\<rparr>) q page) = gs \<and>
      (arg_q args = q \<longrightarrow> q \<noteq> [] \<longrightarrow> arg_page args = Inr page \<longrightarrow>
         snd (search cfg (w\<lparr>requests_post_ddg := f\<rparr>) args)
           = Inr (Http_json 200 (PDict [(''results'', PList (map PDict gs))])))) \<and>
   (snd (google_search_api cfg w q page) = None \<or>
    snd (google_search_api cfg w q page) = Some [] \<longrightarrow>
      snd (aggregate cfg w q page) = snd (ddg_lite_search w q page)) \<and>
   (arg_q args = q \<longrightarrow> q \<noteq> [] \<longrightarrow> arg_page args = Inr page \<longrightarrow>
      snd (search cfg w args)
        = Inr (jsonify (results_body (fallback (snd (aggregate cfg w q page)) page))))"
proof (intro conjI impI)
  assume g: "snd (google_search_api cfg w q page) = Some gs" "gs \<noteq> []"
  then show a: "snd (aggregate cfg (w\<lparr>requests_post_ddg := f\<rparr>) q page) = gs"
    by (rule aggregate_google)
  assume "arg_q args = q" "q \<noteq> []" "arg_page args = Inr page"
  then show "snd (search cfg (w\<lparr>requests_post_ddg := f\<rparr>) args)
      = Inr (Http_json 200 (PDict [(''results'', PList (map PDict gs))]))"
    using a g(2) by (simp add: search_page fallback_def jsonify_def)
next
  assume "snd (google_search_api cfg w q page) = None \<or>
    snd (google_search_api cfg w q page) = Some []"
  then show "snd (aggregate cfg w q page) = snd (ddg_lite_search w q page)"
    by (rule aggregate_ddg)
next
  assume "arg_q args = q" "q \<noteq> []" "arg_page args = Inr page"
  then show "snd (search cfg w args)
      = Inr (jsonify (results_body (fallback (snd (aggregate cfg w q page)) page)))"
    by (simp add: search_page)
qed

theorem aggregate_priority_witness:
  "snd (aggregate config_all (world_both\<lparr>requests_post_ddg := ddg_serves table_17\<rparr>) ''x'' 1)
     = [[(''title'', PStr ''G''), (''url'', PStr ''https://g.example/''),
         (''snippet'', PStr ''about g''), (''source'', PStr ''Google'')]] \<and>
   snd (search config_all (world_both\<lparr>requests_post_ddg := ddg_serves table_17\<rparr>)
          [(''q'', ''x'')])
     = Inr (Http_json 200 (PDict [(''results'', PList [PDict
         [(''title'', PStr ''G''), (''url'', PStr ''https://g.example/''),
          (''snippet'', PStr ''about g''), (''source'', PStr ''Google'')]])])) \<and>
   snd (aggregate config_all world_google_empty ''x'' 1)
     = [ddg_result ''A'' ''https://a.example/'' ''about a''] \<and>
   snd (search config_all world_google_empty [(''q'', ''x'')])
     = Inr (Http_json 200 (PDict [(''results'', PList [PDict
         (ddg_result ''A'' ''https://a.example/'' ''about a'')])]))"
proof -
  have d: "snd (ddg_lite_search world_google_empty ''x'' 1)
      = [ddg_result ''A'' ''https://a.example/'' ''about a'']"
    by (rule table_a_search) (simp add: world_google_empty_def ddg_serves_def)
  show ?thesis
    using aggregate_priority
      [where cfg = config_all and w = world_both and q = "''x''" and page = 1
         and gs = "[[(''title'', PStr ''G''), (''url'', PStr ''https://g.example/''),
                     (''snippet'', PStr ''about g''), (''source'', PStr ''Google'')]]"
         and f = "ddg_serves table_17" and args = "[(''q'', ''x'')]"]
      aggregate_priority
      [where cfg = config_all and w = world_google_empty and q = "''x''" and page = 1
         and gs = "[]" and f = unreachable and args = "[(''q'', ''x'')]"]
    by (simp add: world_both_google world_google_empty_google d arg_q_def arg_page_def
          jsonify_def fallback_def)
qed

lemma map_PDict_inj: "map PDict xs = map PDict ys \<longleftrightarrow> xs = ys"
  by (simp add: inj_map_eq_map inj_on_def)

lemma world_down_aggregate: "snd (aggregate cfg world_down q page) = []"
  by (simp add: aggregate_def google_search_api_def ddg_lite_search_def world_down_def
        unreachable_def Let_def)

text \<open>
  Claim C2. The synthetic record is \<^verbatim>\<open>{title: "No Results Found", url: "#", snippet: ...,
  source: "System"}\<close>. When the result chosen from the two clients is empty, the response
  carries exactly that one record if the page is 1 and the empty list otherwise (so for
  every page above 1). The response never mixes the two: either it is the synthetic record
  alone, the chosen result being empty and the page 1, or it is the chosen result, every
  record of which has the source \<^verbatim>\<open>Google\<close> or \<^verbatim>\<open>DuckDuckGo\<close>.
\<close>

theorem no_results_substitution:
  "no_results_record =
     [(''title'', PStr ''No Results Found''), (''url'', PStr ''#''),
      (''snippet'', PStr ''Both Google and DuckDuckGo failed to return results.''),
      (''source'', PStr ''System'')] \<and>
   (arg_q args = q \<longrightarrow> q \<noteq> [] \<longrightarrow> arg_page args = Inr page \<longrightarrow>
    snd (aggregate cfg w q page) = [] \<longrightarrow>
      snd (search cfg w args)
        = Inr (Http_json 200
            (PDict [(''results'', PList (if page = 1 then [PDict no_results_record] else []))]))) \<and>
   (arg_q args = q \<longrightarrow> q \<noteq> [] \<longrightarrow> arg_page args = Inr page \<longrightarrow>
      (\<exists>rs. snd (search cfg w args)
               = Inr (Http_json 200 (PDict [(''results'', PList (map PDict rs))])) \<and>
            (rs = [no_results_record] \<and> snd (aggregate cfg w q page) = [] \<and> page = 1 \<or>
             rs = snd (aggregate cfg w q page) \<and>
             (\<forall>r\<in>set rs. map_of r ''source'' = Some (PStr ''Google'') \<or>
                          map_of r ''source'' = Some (PStr ''DuckDuckGo'')))))"
proof (intro conjI impI)
  show "no_results_record =
     [(''title'', PStr ''No Results Found''), (''url'', PStr ''#''),
      (''snippet'', PStr ''Both Google and DuckDuckGo failed to return results.''),
      (''source'', PStr ''System'')]"
    by (simp add: no_results_record_def)
next
  assume "arg_q args = q" "q \<noteq> []" "arg_page args = Inr page"
    "snd (aggregate cfg w q page) = []"
  then show "snd (search cfg w args)
        = Inr (Http_json 200
            (PDict [(''results'', PList (if page = 1 then [PDict no_results_record] else []))]))"
    by (simp add: search_page fallback_def jsonify_def)
next
  assume a: "arg_q args = q" "q \<noteq> []" "arg_page args = Inr page"
  let ?ag = "snd (aggregate cfg w q page)"
  from a have s: "snd (search cfg w args)
      = Inr (Http_json 200 (PDict [(''results'', PList (map PDict (fallback ?ag page)))]))"
    by (simp add: search_page jsonify_def)
  have "fallback ?ag page = [no_results_record] \<and> ?ag = [] \<and> page = 1 \<or>
        fallback ?ag page = ?ag \<and>
        (\<forall>r\<in>set (fallback ?ag page). map_of r ''source'' = Some (PStr ''Google'') \<or>
                          map_of r ''source'' = Some (PStr ''DuckDuckGo''))"
    using not_synthetic [of _ cfg w q page] by (auto simp: fallback_def)
  with s show "\<exists>rs. snd (search cfg w args)
               = Inr (Http_json 200 (PDict [(''results'', PList (map PDict rs))])) \<and>
            (rs = [no_results_record] \<and> ?ag = [] \<and> page = 1 \<or>
             rs = ?ag \<and>
             (\<forall>r\<in>set rs. map_of r ''source'' = Some (PStr ''Google'') \<or>
                          map_of r ''source'' = Some (PStr ''DuckDuckGo'')))"
    by blast
qed

theorem no_results_substitution_witness:
  "snd (search config_all world_down [(''q'', ''x'')])
     = Inr (Http_json 200 (PDict [(''results'', PList [PDict no_results_record])])) \<and>
   snd (search config_all world_down [(''q'', ''x''), (''page'', ''2'')])
     = Inr (Http_json 200 (PDict [(''results'', PList [])]))"
  using no_results_substitution
      [where args = "[(''q'', ''x'')]" and q = "''x''" and page = 1 and cfg = config_all
         and w = world_down]
    no_results_substitution
      [where args = "[(''q'', ''x''), (''page'', ''2'')]" and q = "''x''" and page = 2
         and cfg = config_all and w = world_down]
  by (simp add: world_down_aggregate arg_q_def arg_page_def py_int_def py_strip_def
        py_isspace_def py_isdigit_def digit_val_def)

lemma world_no_snippet_search:
  "snd (search config_all world_no_snippet [(''q'', ''x'')])
     = Inr (Http_json 200 (PDict [(''results'', PList [PDict
         [(''title'', PStr ''T''), (''url'', PStr ''https://t.example/''),
          (''snippet'', PNone), (''source'', PStr ''Google'')]])]))"
  by (simp add: search_def arg_q_def arg_page_def aggregate_def google_search_api_def
        config_all_def world_no_snippet_def serves_json_def google_parse_def
        items_no_snippet_def dict_get_def google_result_def Let_def fallback_def jsonify_def)

text \<open>
  Claim C3, as stated, fails: the structured client copies \<^verbatim>\<open>item.get("snippet")\<close>, which is
  \<^verbatim>\<open>None\<close> for an upstream item with no snippet, and the handler returns the record as it is.
\<close>

theorem search_null_snippet:
  "snd (search config_all world_no_snippet [(''q'', ''x'')])
     = Inr (Http_json 200 (PDict [(''results'', PList [PDict
         [(''title'', PStr ''T''), (''url'', PStr ''https://t.example/''),
          (''snippet'', PNone), (''source'', PStr ''Google'')]])])) \<and>
   \<not> non_null [(''title'', PStr ''T''), (''url'', PStr ''https://t.example/''),
               (''snippet'', PNone), (''source'', PStr ''Google'')] ''snippet''"
  by (simp add: world_no_snippet_search non_null_def)

lemma py_get_Inr: "py_get data k dflt = Inr v \<Longrightarrow> \<exists>d. data = PDict d \<and> v = dict_get d k dflt"
  by (cases data) simp_all

lemma google_search_api_Some:
  assumes "snd (google_search_api cfg w q page) = Some gs"
  shows "\<exists>d ds. requests_get_google w (google_params cfg q page) = Response 200 (Inr (PDict d)) \<and>
           py_iter (dict_get d ''items'' (PList [])) = Inr (map PDict ds) \<and>
           gs = map google_result ds"
proof -
  from assms obtain json where
    resp: "requests_get_google w (google_params cfg q page) = Response 200 json" and
    parse: "google_parse json = Inr gs"
    by (auto simp: google_search_api_def Let_def
          split: if_splits http_result.splits sum.splits)
  from parse obtain data its items where
    json: "json = Inr data" and get: "py_get data ''items'' (PList []) = Inr its" and
    iter: "py_iter its = Inr items" and run: "google_items items [] = Inr gs"
    by (auto simp: google_parse_def split: sum.splits)
  from py_get_Inr [OF get] obtain d where d: "data = PDict d"
    "its = dict_get d ''items'' (PList [])" by blast
  from google_items_results [OF run] obtain ds where
    ds: "items = map PDict ds" "gs = map google_result ds" by auto
  from resp json d iter ds
  have "requests_get_google w (google_params cfg q page) = Response 200 (Inr (PDict d)) \<and>
           py_iter (dict_get d ''items'' (PList [])) = Inr (map PDict ds) \<and>
           gs = map google_result ds" by simp
  then show ?thesis by blast
qed

lemma py_iter_dicts:
  "py_iter v = Inr (map PDict ds) \<Longrightarrow> ds \<noteq> [] \<Longrightarrow> v = PList (map PDict ds)"
  by (cases v; cases ds) (auto simp: Cons_eq_map_conv map_eq_Cons_conv)

lemma dict_get_items:
  "dict_get d k (PList []) = PList (map PDict ds) \<Longrightarrow> ds \<noteq> [] \<Longrightarrow>
   map_of d k = Some (PList (map PDict ds))"
  by (auto simp: dict_get_def split: option.splits)

lemma from_item_google_result: "from_item (google_result item) item"
  by (simp add: from_item_def google_result_def dict_get_def non_null_def split: option.splits)

lemma google_search_api_items:
  assumes "snd (google_search_api cfg w q page) = Some gs" "gs \<noteq> []"
  shows "\<exists>d ds. requests_get_google w (google_params cfg q page) = Response 200 (Inr (PDict d)) \<and>
           map_of d ''items'' = Some (PList (map PDict ds)) \<and> list_all2 from_item gs ds"
proof -
  from google_search_api_Some [OF assms(1)] obtain d ds where
    resp: "requests_get_google w (google_params cfg q page) = Response 200 (Inr (PDict d))" and
    iter: "py_iter (dict_get d ''items'' (PList [])) = Inr (map PDict ds)" and
    gs: "gs = map google_result ds" by blast
  from gs assms(2) have ne: "ds \<noteq> []" by auto
  from dict_get_items [OF py_iter_dicts [OF iter ne] ne]
  have items: "map_of d ''items'' = Some (PList (map PDict ds))" .
  have "list_all2 from_item gs ds"
    unfolding gs by (simp add: list_all2_map1 list_all2_same from_item_google_result)
  with resp items show ?thesis by blast
qed

lemma source_no_results_record [simp]:
  "map_of no_results_record ''source'' = Some (PStr ''System'')"
  by (simp add: no_results_record_def)

lemma search_google_records:
  assumes q: "arg_q args = q" "q \<noteq> []" and page: "arg_page args = Inr page"
    and resp: "snd (search cfg w args)
      = Inr (Http_json 200 (PDict [(''results'', PList (map PDict rs))]))"
    and r: "r \<in> set rs" "map_of r ''source'' = Some (PStr ''Google'')"
  shows "\<exists>d ds. requests_get_google w (google_params cfg q page) = Response 200 (Inr (PDict d)) \<and>
           map_of d ''items'' = Some (PList (map PDict ds)) \<and> list_all2 from_item rs ds"
proof -
  let ?ag = "snd (aggregate cfg w q page)"
  from q page resp have "map PDict rs = map PDict (fallback ?ag page)"
    by (simp add: search_page jsonify_def)
  then have rs: "rs = fallback ?ag page" by (simp only: map_PDict_inj)
  show ?thesis
  proof (cases "snd (google_search_api cfg w q page)")
    case None
    then have "?ag = snd (ddg_lite_search w q page)" by (simp add: aggregate_ddg)
    with rs r ddg_lite_search_shape [of r w q page] have False
      by (auto simp: fallback_def split: if_splits)
    then show ?thesis ..
  next
    case (Some gs)
    show ?thesis
    proof (cases "gs = []")
      case True
      with Some have "?ag = snd (ddg_lite_search w q page)" by (simp add: aggregate_ddg)
      with rs r ddg_lite_search_shape [of r w q page] have False
        by (auto simp: fallback_def split: if_splits)
      then show ?thesis ..
    next
      case False
      with Some have "?ag = gs"
        using aggregate_google [of cfg w q page gs "requests_post_ddg w"] by simp
      with rs False have "rs = gs" by (simp add: fallback_def)
      with google_search_api_items [OF Some False] show ?thesis by simp
    qed
  qed
qed

text \<open>
  Claim C3, amended. Every record of a response of the search handler has exactly the four
  keys \<^verbatim>\<open>title\<close>, \<^verbatim>\<open>url\<close>, \<^verbatim>\<open>snippet\<close>, \<^verbatim>\<open>source\<close> and a non-null source, and its title, URL
  and snippet are non-null too unless its source is \<^verbatim>\<open>Google\<close>. When a record of the
  response has the source \<^verbatim>\<open>Google\<close>, the structured server answered this query and page
  with status 200 and a dictionary whose \<^verbatim>\<open>items\<close> is a list of dictionaries, and the
  records of the response are these items one for one, in order: the title, URL and snippet
  of each record are the \<^verbatim>\<open>title\<close>, \<^verbatim>\<open>link\<close> and \<^verbatim>\<open>snippet\<close> of its item, \<^verbatim>\<open>None\<close> where the item
  has no such key, so each is non-null exactly when the item's field is.
\<close>

theorem search_results_fields:
  "(snd (search cfg w args) = Inr resp \<longrightarrow>
     (\<exists>rs. resp = Http_json 200 (PDict [(''results'', PList (map PDict rs))]) \<and>
        (\<forall>r\<in>set rs.
           fst ` set r = {''title'', ''url'', ''snippet'', ''source''} \<and>
           non_null r ''source'' \<and>
           (map_of r ''source'' = Some (PStr ''Google'') \<or>
            non_null r ''title'' \<and> non_null r ''url'' \<and> non_null r ''snippet'')))) \<and>
   (arg_q args = q \<longrightarrow> q \<noteq> [] \<longrightarrow> arg_page args = Inr page \<longrightarrow>
    snd (search cfg w args)
      = Inr (Http_json 200 (PDict [(''results'', PList (map PDict rs))])) \<longrightarrow>
    r \<in> set rs \<longrightarrow> map_of r ''source'' = Some (PStr ''Google'') \<longrightarrow>
      (\<exists>d ds. requests_get_google w (google_params cfg q page) = Response 200 (Inr (PDict d)) \<and>
         map_of d ''items'' = Some (PList (map PDict ds)) \<and> list_all2 from_item rs ds))"
proof (intro conjI impI)
  assume "snd (search cfg w args) = Inr resp"
  from search_response [OF this] obtain rs where
    resp: "resp = Http_json 200 (PDict [(''results'', PList (map PDict rs))])" and
    rs: "\<forall>r\<in>set rs. r = no_results_record \<or> (\<exists>item. r = google_result item) \<or>
         (\<exists>t u s. r = ddg_result t u s)"
    by blast
  have "\<forall>r\<in>set rs.
           fst ` set r = {''title'', ''url'', ''snippet'', ''source''} \<and>
           non_null r ''source'' \<and>
           (map_of r ''source'' = Some (PStr ''Google'') \<or>
            non_null r ''title'' \<and> non_null r ''url'' \<and> non_null r ''snippet'')"
  proof
    fix r assume "r \<in> set rs"
    with rs consider "r = no_results_record" | item where "r = google_result item"
      | t u s where "r = ddg_result t u s" by blast
    then show "fst ` set r = {''title'', ''url'', ''snippet'', ''source''} \<and>
           non_null r ''source'' \<and>
           (map_of r ''source'' = Some (PStr ''Google'') \<or>
            non_null r ''title'' \<and> non_null r ''url'' \<and> non_null r ''snippet'')"
    proof cases
      case 1
      then show ?thesis
        by (simp add: non_null_no_results_record) (auto simp: no_results_record_def)
    next
      case 2
      then show ?thesis
        by (simp add: non_null_google_result) (auto simp: google_result_def)
    next
      case 3
      then show ?thesis by (simp add: non_null_ddg_result) (auto simp: ddg_result_def)
    qed
  qed
  with resp show "\<exists>rs. resp = Http_json 200 (PDict [(''results'', PList (map PDict rs))]) \<and>
        (\<forall>r\<in>set rs.
           fst ` set r = {''title'', ''url'', ''snippet'', ''source''} \<and>
           non_null r ''source'' \<and>
           (map_of r ''source'' = Some (PStr ''Google'') \<or>
            non_null r ''title'' \<and> non_null r ''url'' \<and> non_null r ''snippet''))"
    by blast
next
  assume "arg_q args = q" "q \<noteq> []" "arg_page args = Inr page"
    "snd (search cfg w args)
      = Inr (Http_json 200 (PDict [(''results'', PList (map PDict rs))]))"
    "r \<in> set rs" "map_of r ''source'' = Some (PStr ''Google'')"
  then show "\<exists>d ds.
      requests_get_google w (google_params cfg q page) = Response 200 (Inr (PDict d)) \<and>
      map_of d ''items'' = Some (PList (map PDict ds)) \<and> list_all2 from_item rs ds"
    by (rule search_google_records)
qed

theorem search_results_fields_witness:
  "snd (search config_all world_no_snippet [(''q'', ''x'')])
     = Inr (Http_json 200 (PDict [(''results'', PList [PDict
         [(''title'', PStr ''T''), (''url'', PStr ''https://t.example/''),
          (''snippet'', PNone), (''source'', PStr ''Google'')]])])) \<and>
   from_item
     [(''title'', PStr ''T''), (''url'', PStr ''https://t.example/''),
      (''snippet'', PNone), (''source'', PStr ''Google'')]
     [(''title'', PStr ''T''), (''link'', PStr ''https://t.example/'')] \<and>
   fst ` set [(''title'', PStr ''T''), (''url'', PStr ''https://t.example/''),
              (''snippet'', PNone), (''source'', PStr ''Google'')]
     = {''title'', ''url'', ''snippet'', ''source''} \<and>
   non_null [(''title'', PStr ''T''), (''url'', PStr ''https://t.example/''),
             (''snippet'', PNone), (''source'', PStr ''Google'')] ''source''"
proof -
  define item :: pydict where
    "item = [(''title'', PStr ''T''), (''link'', PStr ''https://t.example/'')]"
  define r0 :: pydict where
    "r0 = [(''title'', PStr ''T''), (''url'', PStr ''https://t.example/''),
           (''snippet'', PNone), (''source'', PStr ''Google'')]"
  define resp where "resp = Http_json 200 (PDict [(''results'', PList (map PDict [r0]))])"
  have s: "snd (search config_all world_no_snippet [(''q'', ''x'')]) = Inr resp"
    unfolding resp_def r0_def using world_no_snippet_search by simp
  note t = search_results_fields
    [where cfg = config_all and w = world_no_snippet and args = "[(''q'', ''x'')]"
       and resp = resp and q = "''x''" and page = 1 and rs = "[r0]" and r = r0]
  have q: "arg_q [(''q'', ''x'')] = ''x''" "''x'' \<noteq> []" by (simp_all add: arg_q_def)
  have p: "arg_page [(''q'', ''x'')] = Inr 1" by (simp add: arg_page_def)
  have r: "r0 \<in> set [r0]" "map_of r0 ''source'' = Some (PStr ''Google'')"
    by (simp_all add: r0_def)
  from t have "arg_q [(''q'', ''x'')] = ''x'' \<longrightarrow> ''x'' \<noteq> [] \<longrightarrow> arg_page [(''q'', ''x'')] = Inr 1 \<longrightarrow>
    snd (search config_all world_no_snippet [(''q'', ''x'')])
      = Inr (Http_json 200 (PDict [(''results'', PList (map PDict [r0]))])) \<longrightarrow>
    r0 \<in> set [r0] \<longrightarrow> map_of r0 ''source'' = Some (PStr ''Google'') \<longrightarrow>
      (\<exists>d ds. requests_get_google world_no_snippet (google_params config_all ''x'' 1)
                 = Response 200 (Inr (PDict d)) \<and>
         map_of d ''items'' = Some (PList (map PDict ds)) \<and> list_all2 from_item [r0] ds)"
    by (rule conjunct2)
  with q p s r obtain d ds where
    up: "requests_get_google world_no_snippet (google_params config_all ''x'' 1)
           = Response 200 (Inr (PDict d))" and
    items: "map_of d ''items'' = Some (PList (map PDict ds))" and
    rel: "list_all2 from_item [r0] ds"
    unfolding resp_def by blast
  from up have "d = [(''items'', PList [PDict item])]"
    by (simp add: world_no_snippet_def serves_json_def items_no_snippet_def item_def)
  with items have "map PDict [item] = map PDict ds" by simp
  then have "ds = [item]" by (simp only: map_PDict_inj)
  with rel have a: "from_item r0 item" by simp
  from t have "snd (search config_all world_no_snippet [(''q'', ''x'')]) = Inr resp \<longrightarrow>
     (\<exists>rs. resp = Http_json 200 (PDict [(''results'', PList (map PDict rs))]) \<and>
        (\<forall>r\<in>set rs.
           fst ` set r = {''title'', ''url'', ''snippet'', ''source''} \<and>
           non_null r ''source'' \<and>
           (map_of r ''source'' = Some (PStr ''Google'') \<or>
            non_null r ''title'' \<and> non_null r ''url'' \<and> non_null r ''snippet'')))"
    by (rule conjunct1)
  from this s obtain rs where
    eq: "resp = Http_json 200 (PDict [(''results'', PList (map PDict rs))])" and
    all: "\<forall>r\<in>set rs.
           fst ` set r = {''title'', ''url'', ''snippet'', ''source''} \<and>
           non_null r ''source'' \<and>
           (map_of r ''source'' = Some (PStr ''Google'') \<or>
            non_null r ''title'' \<and> non_null r ''url'' \<and> non_null r ''snippet'')"
    by (elim impE exE conjE)
  from eq have "map PDict [r0] = map PDict rs" unfolding resp_def by simp
  then have "rs = [r0]" by (simp only: map_PDict_inj)
  with all have b: "fst ` set r0 = {''title'', ''url'', ''snippet'', ''source''}"
    and c: "non_null r0 ''source''" by simp_all
  from s have d: "snd (search config_all world_no_snippet [(''q'', ''x'')])
      = Inr (Http_json 200 (PDict [(''results'', PList [PDict r0])]))"
    unfolding resp_def by simp
  from d a b c show ?thesis unfolding r0_def item_def by (simp only: simp_thms)
qed

section \<open>Pagination\<close>

text \<open>
  Claim C6. The structured client sends \<^verbatim>\<open>start = (page - 1) * 10 + 1\<close> and \<^verbatim>\<open>num = 10\<close>, in
  the one request it makes when it is configured (it makes none otherwise); the scraping
  client sends \<^verbatim>\<open>s = (page - 1) * 20\<close> in its one request. So pages 1, 2, 3 start at 1, 11,
  21, and pages 1, 2 skip 0, 20. This holds for every page, the pages from 1 on among them.
\<close>

theorem pagination_offsets:
  "map_of (google_params cfg q page) ''start'' = Some (PInt ((page - 1) * 10 + 1)) \<and>
   map_of (google_params cfg q page) ''num'' = Some (PInt 10) \<and>
   fst (google_search_api cfg w q page)
     = (if env_truthy (GOOGLE_API_KEY cfg) \<and> env_truthy (GOOGLE_CX_ID cfg)
        then [Requested ''GET'' google_url (google_params cfg q page)] else []) \<and>
   map_of (ddg_payload q page) ''s'' = Some (PInt ((page - 1) * 20)) \<and>
   fst (ddg_lite_search w q page) = [Requested ''POST'' ddg_url (ddg_payload q page)] \<and>
   map_of (google_params cfg q 1) ''start'' = Some (PInt 1) \<and>
   map_of (google_params cfg q 2) ''start'' = Some (PInt 11) \<and>
   map_of (google_params cfg q 3) ''start'' = Some (PInt 21) \<and>
   map_of (ddg_payload q 1) ''s'' = Some (PInt 0) \<and>
   map_of (ddg_payload q 2) ''s'' = Some (PInt 20)"
  by (simp add: google_params_def ddg_payload_def google_search_api_def ddg_lite_search_def
        Let_def)

theorem pagination_offsets_witness:
  "fst (google_search_api config_all world_down ''x'' 4)
     = [Requested ''GET'' google_url
          [(''key'', PStr ''key''), (''cx'', PStr ''cx''), (''q'', PStr ''x''),
           (''start'', PInt 31), (''num'', PInt 10)]] \<and>
   fst (google_search_api config_none world_down ''x'' 4) = [] \<and>
   fst (ddg_lite_search world_down ''x'' 4)
     = [Requested ''POST'' ddg_url [(''q'', PStr ''x''), (''s'', PInt 60)]]"
  using pagination_offsets [where cfg = config_all and w = world_down and q = "''x''" and page = 4]
    pagination_offsets [where cfg = config_none and w = world_down and q = "''x''" and page = 4]
  by (simp add: config_all_def config_none_def google_params_def ddg_payload_def)

section \<open>The chat handler\<close>

lemma chat_content_message: "chat_content (chat_message s) = Some s"
  by (simp add: chat_content_def chat_message_def)

lemma chat_try_Inl:
  "snd (chat_try w rj) = Inl e \<longleftrightarrow>
     rj = Inl e \<or>
     (\<exists>data. rj = Inr data \<and>
        (py_get data ''messages'' (PList []) = Inl e \<or>
         (\<exists>messages. py_get data ''messages'' (PList []) = Inr messages \<and>
            (requests_post_groq w (groq_payload messages) = Raises e \<or>
             (\<exists>status_code. requests_post_groq w (groq_payload messages)
                = Response status_code (Inl e))))))"
  by (auto simp: chat_try_def Let_def split: sum.splits http_result.splits)

text \<open>
  Claim C8. (1) With no chat API key the handler returns status 200 and the payload whose
  \<^verbatim>\<open>choices[0].message.content\<close> is the configuration error, and sends nothing upstream.
  (2) With a key, when the body of the \<^verbatim>\<open>try\<close> raises \<open>e\<close>, it returns status 200 and the
  payload whose content is \<^verbatim>\<open>**System Error:**\<close> followed by \<^verbatim>\<open>str(e)\<close>. (3) The body raises
  exactly when \<^verbatim>\<open>request.json\<close> raises, the request body has no \<^verbatim>\<open>get\<close>, the upstream call
  raises, or \<^verbatim>\<open>resp.json()\<close> raises. (4) The content of such a payload is the string put in.
  (5) In every case the handler returns a JSON response of status 200.
\<close>

theorem chat_proxy_always_200:
  "(\<not> env_truthy (GROQ_API_KEY cfg) \<longrightarrow>
      chat_proxy cfg w rj
        = ([], Inr (Http_json 200 (chat_message ''**Error:** GROQ_API_KEY not configured.'')))) \<and>
   (env_truthy (GROQ_API_KEY cfg) \<longrightarrow> snd (chat_try w rj) = Inl e \<longrightarrow>
      snd (chat_proxy cfg w rj)
        = Inr (Http_json 200 (chat_message (''**System Error:** '' @ exn_str e)))) \<and>
   (snd (chat_try w rj) = Inl e \<longleftrightarrow>
     rj = Inl e \<or>
     (\<exists>data. rj = Inr data \<and>
        (py_get data ''messages'' (PList []) = Inl e \<or>
         (\<exists>messages. py_get data ''messages'' (PList []) = Inr messages \<and>
            (requests_post_groq w (groq_payload messages) = Raises e \<or>
             (\<exists>status_code. requests_post_groq w (groq_payload messages)
                = Response status_code (Inl e))))))) \<and>
   chat_content (chat_message s) = Some s \<and>
   (\<exists>v. snd (chat_proxy cfg w rj) = Inr (Http_json 200 v))"
proof (intro conjI impI)
  assume "\<not> env_truthy (GROQ_API_KEY cfg)"
  then show "chat_proxy cfg w rj
        = ([], Inr (Http_json 200 (chat_message ''**Error:** GROQ_API_KEY not configured.'')))"
    by (simp add: chat_proxy_def jsonify_def)
next
  assume "env_truthy (GROQ_API_KEY cfg)" "snd (chat_try w rj) = Inl e"
  then show "snd (chat_proxy cfg w rj)
        = Inr (Http_json 200 (chat_message (''**System Error:** '' @ exn_str e)))"
    by (cases "chat_try w rj") (simp add: chat_proxy_def jsonify_def)
next
  show "snd (chat_try w rj) = Inl e \<longleftrightarrow>
     rj = Inl e \<or>
     (\<exists>data. rj = Inr data \<and>
        (py_get data ''messages'' (PList []) = Inl e \<or>
         (\<exists>messages. py_get data ''messages'' (PList []) = Inr messages \<and>
            (requests_post_groq w (groq_payload messages) = Raises e \<or>
             (\<exists>status_code. requests_post_groq w (groq_payload messages)
                = Response status_code (Inl e))))))"
    by (rule chat_try_Inl)
next
  show "chat_content (chat_message s) = Some s" by (rule chat_content_message)
next
  show "\<exists>v. snd (chat_proxy cfg w rj) = Inr (Http_json 200 v)"
    by (cases "chat_try w rj")
      (auto simp: chat_proxy_def jsonify_def chat_try_def Let_def
         split: sum.splits http_result.splits)
qed

theorem chat_proxy_always_200_witness:
  "chat_proxy config_none world_down (Inr (PDict [(''messages'', PList [])]))
     = ([], Inr (Http_json 200 (chat_message ''**Error:** GROQ_API_KEY not configured.''))) \<and>
   snd (chat_proxy config_all world_down (Inr (PDict [(''messages'', PList [])])))
     = Inr (Http_json 200 (chat_message ''**System Error:** connection refused'')) \<and>
   snd (chat_proxy config_all world_down (Inr PNone))
     = Inr (Http_json 200 (chat_message
         (''**System Error:** '' @ exn_str (AttributeError PNone ''get''))))"
  using chat_proxy_always_200
      [where cfg = config_none and w = world_down and rj = "Inr (PDict [(''messages'', PList [])])"
         and e = "PyExn ''ConnectionError'' ''connection refused''" and s = "''x''"]
    chat_proxy_always_200
      [where cfg = config_all and w = world_down and rj = "Inr (PDict [(''messages'', PList [])])"
         and e = "PyExn ''ConnectionError'' ''connection refused''" and s = "''x''"]
    chat_proxy_always_200
      [where cfg = config_all and w = world_down and rj = "Inr PNone"
         and e = "AttributeError PNone ''get''" and s = "''x''"]
  by (simp add: config_none_def config_all_def world_down_def unreachable_def dict_get_def)

section \<open>The page parameter\<close>

lemma py_int_abc: "py_int ''abc'' = Inl (ValueError_int ''abc'')"
  by (simp add: py_int_def py_strip_def py_isspace_def py_isdigit_def)

lemma search_total:
  "arg_page args = Inr page \<Longrightarrow> \<exists>v. snd (search cfg w args) = Inr (Http_json 200 v)"
  by (cases "arg_q args = []") (simp_all add: search_page search_empty_query jsonify_def)

text \<open>
  Claim C4 at a request whose \<^verbatim>\<open>page\<close> is no integer: \<^verbatim>\<open>int("abc")\<close> raises \<^verbatim>\<open>ValueError\<close>
  outside any \<^verbatim>\<open>try\<close>, so the handler returns no response, and no client is called.
\<close>

theorem search_page_not_integer:
  "search cfg w [(''q'', ''x''), (''page'', ''abc'')] = ([], Inl (ValueError_int ''abc''))"
  by (simp add: search_def arg_q_def arg_page_def py_int_abc)

text \<open>
  Claim C9 at a request with an empty or absent \<^verbatim>\<open>q\<close> whose \<^verbatim>\<open>page\<close> is no integer: the page
  is converted before \<^verbatim>\<open>q\<close> is tested, so the handler raises instead of returning the empty
  result list. No client is called.
\<close>

theorem search_empty_query_bad_page:
  "search cfg w [(''q'', ''''), (''page'', ''abc'')] = ([], Inl (ValueError_int ''abc'')) \<and>
   search cfg w [(''page'', ''abc'')] = ([], Inl (ValueError_int ''abc''))"
  by (simp add: search_def arg_q_def arg_page_def py_int_abc)

end
